theory Spec2Isabelle
  imports Complex_Main "HOL-Library.Sublist"
begin

section \<open>Data model of \<open>backend/retrieval/store.py\<close>\<close>

text \<open>
  A Python string is the list of the bytes of its UTF-8 encoding. The keywords and
  section names of the store are ASCII; for them, occurring in a string as a run of
  bytes and occurring in it as a run of code points are the same.

  The values \<open>json.load\<close> and \<open>json.loads\<close> produce. A JSON object is a Python
  \<open>dict\<close> (an association list, read with \<open>map_of\<close>; the parser yields every key
  once), JSON \<open>null\<close> is Python's \<open>None\<close>. A float is kept as the text of its
  \<open>repr\<close>; no operation of the store computes with one.
\<close>

datatype json =
    JNull
  | JBool bool
  | JInt int
  | JFloat string
  | JString string
  | JArray "json list"
  | JObject "(string \<times> json) list"

text \<open>
  The exceptions the store can meet; every handler in the file catches \<open>Exception\<close>.
\<close>

datatype error =
    FileNotFoundError
  | PermissionError
  | OSError
  | JSONDecodeError
  | AttributeError
  | IndexError
  | ImportError
  | RuntimeError
  | UnicodeEncodeError

text \<open>
  One retrieval chunk of \<open>pf.meta.json\<close>, an \<open>(id, text)\<close> pair, and a constructed
  \<open>DenseRetriever\<close>: \<open>nearest\<close> stands for \<open>self.model.encode\<close> followed by
  \<open>self.index.search\<close> and the selection of row \<open>indices[0]\<close>.
\<close>

type_synonym chunk = "string \<times> string"

record retriever =
  nearest :: "string \<Rightarrow> int \<Rightarrow> error + int list"
  chunks :: "chunk list"

text \<open>
  The seven \<open>print\<close> calls of the file, by the message they write. Each message
  starts with a symbol outside ASCII and Latin-1, so \<open>print\<close> raises
  \<open>UnicodeEncodeError\<close> where the encoding of the standard output cannot write it.
\<close>

datatype message =
    PortfolioReloaded
  | ErrorLoadingPortfolio
  | LoadedVectorIndex
  | CouldNotLoadVectorIndex
  | VectorSearchError
  | UsingVectorSearch
  | UsingKeywordMatching

text \<open>
  What lies outside the process, as one call finds it: the portfolio file
  (\<open>PORTFOLIO_PATH.stat().st_mtime\<close>; \<open>open\<close> followed by \<open>json.load\<close>), the two index
  artifacts (\<open>INDEX_PATH.exists()\<close>, \<open>META_PATH.exists()\<close>, which re-raise the
  \<open>OSError\<close> they do not take for absence), the outcome of the imports with the
  loading of the model and of the index, the outcome of reading the chunk metadata,
  the environment variable \<open>ENABLE_RAG\<close>, and the console: \<open>print w m\<close> is the exception
  that writing the message \<open>m\<close> raises, \<open>None\<close> if it is written.
\<close>

record world =
  stat_mtime :: "error + real"
  read_portfolio :: "error + json"
  index_exists :: "error + bool"
  meta_exists :: "error + bool"
  load_index :: "error + (string \<Rightarrow> int \<Rightarrow> error + int list)"
  read_meta :: "error + chunk list"
  enable_rag :: "string option"
  print :: "message \<Rightarrow> error option"

text \<open>
  The observable operations of a call, recorded in the order they happen: a \<open>stat\<close> of
  the portfolio file, an \<open>open\<close> of it for reading, a call of the \<open>DenseRetriever\<close>
  constructor (with whether it returned an instance), a call of \<open>search\<close>.
\<close>

datatype event = Stat | DiskRead | Construct bool | Search

text \<open>
  The module globals \<open>_portfolio_cache\<close> (its two entries) and \<open>_dense_retriever\<close>,
  with the record of operations performed so far.
\<close>

record state =
  cache_data :: json
  cache_last_modified :: real
  dense_retriever :: "retriever option"
  trace :: "event list"

definition initial_state :: state where
  "initial_state =
     \<lparr>cache_data = JNull, cache_last_modified = 0, dense_retriever = None, trace = []\<rparr>"

definition log_event :: "event \<Rightarrow> state \<Rightarrow> state" where
  "log_event e s = s\<lparr>trace := trace s @ [e]\<rparr>"

section \<open>Portfolio store\<close>

text \<open>
  The \<open>try\<close> block of \<open>load_portfolio\<close>: \<open>Inl\<close> is an exception that reaches the
  handler. The assignment to \<open>_portfolio_cache["data"]\<close> happens only after
  \<open>json.load\<close> has returned, so a failed read leaves the cache as it was; the message
  of a reload is printed after both entries of the cache are set.
\<close>

definition load_portfolio_try :: "world \<Rightarrow> state \<Rightarrow> (error + json) \<times> state" where
  "load_portfolio_try w s =
     (let s1 = log_event Stat s in
      case stat_mtime w of
        Inl e \<Rightarrow> (Inl e, s1)
      | Inr current_mtime \<Rightarrow>
          if cache_data s1 = JNull \<or> current_mtime > cache_last_modified s1
          then (let s2 = log_event DiskRead s1 in
                case read_portfolio w of
                  Inl e \<Rightarrow> (Inl e, s2)
                | Inr d \<Rightarrow>
                    (let s3 = s2\<lparr>cache_data := d, cache_last_modified := current_mtime\<rparr>
                     in case print w PortfolioReloaded of
                          Some e \<Rightarrow> (Inl e, s3)
                        | None \<Rightarrow> (Inr (cache_data s3), s3)))
          else (Inr (cache_data s1), s1))"

text \<open>
  \<open>load_portfolio\<close>: the handler prints its message and returns \<open>{}\<close>; an exception of
  that \<open>print\<close> is raised to the caller.
\<close>

definition load_portfolio :: "world \<Rightarrow> state \<Rightarrow> (error + json) \<times> state" where
  "load_portfolio w s =
     (case load_portfolio_try w s of
        (Inl e, s') \<Rightarrow>
          (case print w ErrorLoadingPortfolio of
             Some e' \<Rightarrow> (Inl e', s')
           | None \<Rightarrow> (Inr (JObject []), s'))
      | (Inr d, s') \<Rightarrow> (Inr d, s'))"

definition reload_portfolio :: "world \<Rightarrow> state \<Rightarrow> (error + json) \<times> state" where
  "reload_portfolio w s = load_portfolio w (s\<lparr>cache_last_modified := 0\<rparr>)"

section \<open>Keyword router\<close>

text \<open>Python's \<open>word in q\<close> on strings: \<open>word\<close> occurs in \<open>q\<close> as a contiguous run.\<close>

fun is_substring :: "string \<Rightarrow> string \<Rightarrow> bool" where
  "is_substring word [] = (word = [])"
| "is_substring word (c # cs) = (prefix word (c # cs) \<or> is_substring word cs)"

text \<open>\<open>any(word in q for word in words)\<close>.\<close>

definition any_word_in :: "string list \<Rightarrow> string \<Rightarrow> bool" where
  "any_word_in words q = list_ex (\<lambda>word. is_substring word q) words"

text \<open>
  \<open>portfolio_data.get(key, [])\<close>: only a \<open>dict\<close> has the method, so a document that is
  any other JSON value raises \<open>AttributeError\<close>.
\<close>

definition dict_get :: "json \<Rightarrow> string \<Rightarrow> json \<Rightarrow> error + json" where
  "dict_get d key dflt =
     (case d of
        JObject kvs \<Rightarrow> Inr (case map_of kvs key of None \<Rightarrow> dflt | Some v \<Rightarrow> v)
      | _ \<Rightarrow> Inl AttributeError)"

text \<open>
  \<open>json.dumps(portfolio_data.get(key, []), ensure_ascii=False, indent=2)\<close>; the
  serialiser \<open>dumps\<close> is a parameter of the model.
\<close>

definition dump_section :: "(json \<Rightarrow> string) \<Rightarrow> json \<Rightarrow> string \<Rightarrow> error + string" where
  "dump_section dumps portfolio_data key =
     (case dict_get portfolio_data key (JArray []) of
        Inl e \<Rightarrow> Inl e
      | Inr v \<Rightarrow> Inr (dumps v))"

text \<open>
  \<open>keyword_context\<close>. The method \<open>str.lower\<close> of the standard library, which maps
  every cased character of Unicode, is the parameter \<open>str_lower\<close>. An exception of
  \<open>load_portfolio\<close> is raised to the caller before the question is looked at.
\<close>

definition keyword_context ::
  "(json \<Rightarrow> string) \<Rightarrow> (string \<Rightarrow> string) \<Rightarrow> world \<Rightarrow> state \<Rightarrow> string option \<Rightarrow> string
   \<Rightarrow> (error + string) \<times> state"
where
  "keyword_context dumps str_lower w s section question =
     (case load_portfolio w s of
        (Inl e, s') \<Rightarrow> (Inl e, s')
      | (Inr portfolio_data, s') \<Rightarrow>
      (let q = str_lower question in
       if section = Some ''PROJECTS'' \<or> any_word_in [''project'', ''built'', ''develop''] q
       then (dump_section dumps portfolio_data ''projects'', s')
       else if section = Some ''SKILLS''
            \<or> any_word_in [''stack'', ''skill'', ''tech'', ''language'', ''framework''] q
       then (dump_section dumps portfolio_data ''skills'', s')
       else if section = Some ''EXPERIENCE''
            \<or> any_word_in [''work'', ''job'', ''company'', ''experience'', ''role''] q
       then (dump_section dumps portfolio_data ''experience'', s')
       else if section = Some ''EDUCATION''
            \<or> any_word_in [''degree'', ''university'', ''education'', ''study'', ''college''] q
       then (dump_section dumps portfolio_data ''education'', s')
       else if section = Some ''CERTIFICATIONS''
            \<or> any_word_in [''cert'', ''certification'', ''certified''] q
       then (dump_section dumps portfolio_data ''certifications'', s')
       else (Inr (dumps portfolio_data), s')))"

section \<open>Dense retriever\<close>

text \<open>
  The handler of \<open>DenseRetriever.__init__\<close>: it prints its message and raises the
  exception again; an exception of that \<open>print\<close> is raised in its place.
\<close>

definition init_failed :: "world \<Rightarrow> error \<Rightarrow> error + retriever" where
  "init_failed w e =
     (case print w CouldNotLoadVectorIndex of Some e' \<Rightarrow> Inl e' | None \<Rightarrow> Inl e)"

text \<open>
  \<open>DenseRetriever.__init__\<close>: the imports, the model and the index are loaded first,
  the chunk metadata after them, and the message of success is printed, all inside
  the \<open>try\<close> block.
\<close>

definition DenseRetriever_init :: "world \<Rightarrow> error + retriever" where
  "DenseRetriever_init w =
     (case load_index w of
        Inl e \<Rightarrow> init_failed w e
      | Inr f \<Rightarrow>
          (case read_meta w of
             Inl e \<Rightarrow> init_failed w e
           | Inr cs \<Rightarrow>
               (case print w LoadedVectorIndex of
                  Some e \<Rightarrow> init_failed w e
                | None \<Rightarrow> Inr \<lparr>nearest = f, chunks = cs\<rparr>)))"

text \<open>Python list indexing \<open>xs[idx]\<close>: a negative index counts from the end.\<close>

definition py_index :: "'a list \<Rightarrow> int \<Rightarrow> error + 'a" where
  "py_index xs idx =
     (let n = int (length xs) in
      if 0 \<le> idx \<and> idx < n then Inr (xs ! nat idx)
      else if - n \<le> idx \<and> idx < 0 then Inr (xs ! nat (n + idx))
      else Inl IndexError)"

text \<open>
  The loop of \<open>search\<close> over \<open>indices[0]\<close>, with the accumulator \<open>selected_chunks\<close>.
\<close>

fun select_chunks :: "chunk list \<Rightarrow> int list \<Rightarrow> string list \<Rightarrow> error + string list" where
  "select_chunks cs [] selected_chunks = Inr selected_chunks"
| "select_chunks cs (idx # rest) selected_chunks =
     (if idx < int (length cs)
      then (case py_index cs idx of
              Inl e \<Rightarrow> Inl e
            | Inr (chunk_id, chunk_text) \<Rightarrow>
                select_chunks cs rest (selected_chunks @ [chunk_text]))
      else select_chunks cs rest selected_chunks)"

text \<open>\<open>sep.join(parts)\<close>.\<close>

fun join :: "string \<Rightarrow> string list \<Rightarrow> string" where
  "join sep [] = []"
| "join sep [x] = x"
| "join sep (x # y # ys) = x @ sep @ join sep (y # ys)"

definition search :: "retriever \<Rightarrow> string \<Rightarrow> int \<Rightarrow> error + string" where
  "search r question top_k =
     (case nearest r question top_k of
        Inl e \<Rightarrow> Inl e
      | Inr row \<Rightarrow>
          (case select_chunks (chunks r) row [] of
             Inl e \<Rightarrow> Inl e
           | Inr selected_chunks \<Rightarrow> Inr (join [CHR 0x0A, CHR 0x0A] selected_chunks)))"

text \<open>
  The test \<open>not INDEX_PATH.exists() or not META_PATH.exists()\<close>: the second probe is
  made only when the first finds the index, and an exception of a probe is raised.
\<close>

definition artifact_missing :: "world \<Rightarrow> error + bool" where
  "artifact_missing w =
     (case index_exists w of
        Inl e \<Rightarrow> Inl e
      | Inr found_index \<Rightarrow>
          if \<not> found_index then Inr True
          else (case meta_exists w of
                  Inl e \<Rightarrow> Inl e
                | Inr found_meta \<Rightarrow> Inr (\<not> found_meta)))"

text \<open>
  \<open>dense_context\<close>. The probes stand outside every \<open>try\<close> block, so their exception
  is raised to the caller; a failed construction returns the empty string without a
  message; the handler of a failed \<open>search\<close> prints its message and returns the empty
  string, and an exception of that \<open>print\<close> is raised to the caller.
\<close>

definition dense_context :: "world \<Rightarrow> state \<Rightarrow> string \<Rightarrow> int \<Rightarrow> (error + string) \<times> state" where
  "dense_context w s question top_k =
     (case artifact_missing w of
        Inl e \<Rightarrow> (Inl e, s)
      | Inr missing \<Rightarrow>
        if missing then (Inr [], s)
        else
        (case (case dense_retriever s of
                 None \<Rightarrow>
                   (case DenseRetriever_init w of
                      Inl e \<Rightarrow> (None, log_event (Construct False) s)
                    | Inr r \<Rightarrow>
                        (Some r, (log_event (Construct True) s)\<lparr>dense_retriever := Some r\<rparr>))
               | Some r \<Rightarrow> (Some r, s)) of
           (None, s1) \<Rightarrow> (Inr [], s1)
         | (Some r, s1) \<Rightarrow>
             (case search r question top_k of
                Inl e \<Rightarrow>
                  (case print w VectorSearchError of
                     Some e' \<Rightarrow> (Inl e', log_event Search s1)
                   | None \<Rightarrow> (Inr [], log_event Search s1))
              | Inr vector_context \<Rightarrow> (Inr vector_context, log_event Search s1))))"

section \<open>Context selector\<close>

text \<open>\<open>os.getenv("ENABLE_RAG", "false").lower() == "true"\<close>.\<close>

definition rag_enabled :: "(string \<Rightarrow> string) \<Rightarrow> world \<Rightarrow> bool" where
  "rag_enabled str_lower w =
     (str_lower (case enable_rag w of None \<Rightarrow> ''false'' | Some v \<Rightarrow> v) = ''true'')"

text \<open>
  The last two statements of \<open>select_context\<close>: the message of the fallback is
  printed, then the keyword router is called.
\<close>

definition keyword_fallback ::
  "(json \<Rightarrow> string) \<Rightarrow> (string \<Rightarrow> string) \<Rightarrow> world \<Rightarrow> state \<Rightarrow> string option \<Rightarrow> string
   \<Rightarrow> (error + string) \<times> state"
where
  "keyword_fallback dumps str_lower w s section question =
     (case print w UsingKeywordMatching of
        Some e \<Rightarrow> (Inl e, s)
      | None \<Rightarrow> keyword_context dumps str_lower w s section question)"

definition select_context ::
  "(json \<Rightarrow> string) \<Rightarrow> (string \<Rightarrow> string) \<Rightarrow> world \<Rightarrow> state \<Rightarrow> string option \<Rightarrow> string
   \<Rightarrow> (error + string) \<times> state"
where
  "select_context dumps str_lower w s section question =
     (if rag_enabled str_lower w
      then (case dense_context w s question 5 of
              (Inl e, s') \<Rightarrow> (Inl e, s')
            | (Inr vector_context, s') \<Rightarrow>
                if vector_context \<noteq> []
                then (case print w UsingVectorSearch of
                        Some e \<Rightarrow> (Inl e, s')
                      | None \<Rightarrow> (Inr vector_context, s'))
                else keyword_fallback dumps str_lower w s' section question)
      else keyword_fallback dumps str_lower w s section question)"

section \<open>Link extractor\<close>

text \<open>
  A link is the \<open>dict\<close> with the keys \<open>label\<close> and \<open>url\<close>. The \<open>url\<close> is whatever JSON
  value the record holds; so is the \<open>label\<close> of a certification link.
\<close>

record link =
  label :: json
  url :: json

text \<open>
  \<open>f"{name}"\<close>: a string is inserted as it is, any other value through \<open>str\<close>, which is
  a parameter of the model.
\<close>

definition format_value :: "(json \<Rightarrow> string) \<Rightarrow> json \<Rightarrow> string" where
  "format_value py_str v = (case v of JString t \<Rightarrow> t | _ \<Rightarrow> py_str v)"

text \<open>The body of the loop of \<open>extract_links\<close> for one \<open>item\<close>: the links it appends.\<close>

definition item_links :: "(json \<Rightarrow> string) \<Rightarrow> json \<Rightarrow> link list" where
  "item_links py_str item =
     (case item of
        JObject kvs \<Rightarrow>
          (let name = (case map_of kvs ''name'' of None \<Rightarrow> JString ''Project'' | Some v \<Rightarrow> v) in
           (case map_of kvs ''repo'' of
              None \<Rightarrow> []
            | Some repo \<Rightarrow>
                [\<lparr>label = JString (format_value py_str name @ '' - GitHub''), url = repo\<rparr>])
           @ (case map_of kvs ''demo'' of
                None \<Rightarrow> []
              | Some demo \<Rightarrow>
                  [\<lparr>label = JString (format_value py_str name @ '' - Live Demo''), url = demo\<rparr>])
           @ (case (map_of kvs ''url'', map_of kvs ''name'') of
                (Some u, Some n) \<Rightarrow> [\<lparr>label = n, url = u\<rparr>]
              | _ \<Rightarrow> []))
      | _ \<Rightarrow> [])"

text \<open>The loop \<open>for item in data\<close>, with the accumulator \<open>links\<close>.\<close>

fun collect_links :: "(json \<Rightarrow> string) \<Rightarrow> json list \<Rightarrow> link list \<Rightarrow> link list" where
  "collect_links py_str [] links = links"
| "collect_links py_str (item # rest) links =
     collect_links py_str rest (links @ item_links py_str item)"

text \<open>
  \<open>extract_links\<close>; the parser \<open>json.loads\<close> is the parameter \<open>loads\<close>, and \<open>Inl\<close> is
  the exception it raises.
\<close>

definition extract_links ::
  "(string \<Rightarrow> error + json) \<Rightarrow> (json \<Rightarrow> string) \<Rightarrow> string \<Rightarrow> link list"
where
  "extract_links loads py_str context =
     (case loads context of
        Inl e \<Rightarrow> []
      | Inr data \<Rightarrow>
          take 4 (case data of
                    JArray items \<Rightarrow> collect_links py_str items []
                  | _ \<Rightarrow> []))"

section \<open>Library functions of the examples\<close>

text \<open>
  \<open>json.dumps(value, ensure_ascii=False, indent=2)\<close> of the standard library, for the
  concrete examples below: items on lines of their own, indented by two spaces per
  level, \<open>", "\<close> replaced by a comma and a line break, \<open>": "\<close> after a key, and only
  the quote, the backslash and the control characters escaped in a string. The
  general theorems hold for every serialiser.
\<close>

fun show_nat :: "nat \<Rightarrow> string" where
  "show_nat n =
     (if n < 10 then [''0123456789'' ! n]
      else show_nat (n div 10) @ [''0123456789'' ! (n mod 10)])"

definition show_int :: "int \<Rightarrow> string" where
  "show_int i = (if i < 0 then CHR ''-'' # show_nat (nat (- i)) else show_nat (nat i))"

definition escape_char :: "char \<Rightarrow> string" where
  "escape_char c =
     (if c = CHR 0x22 then [CHR 0x5C, CHR 0x22]
      else if c = CHR 0x5C then [CHR 0x5C, CHR 0x5C]
      else if c = CHR 0x0A then [CHR 0x5C, CHR ''n'']
      else if c = CHR 0x0D then [CHR 0x5C, CHR ''r'']
      else if c = CHR 0x09 then [CHR 0x5C, CHR ''t'']
      else if c = CHR 0x08 then [CHR 0x5C, CHR ''b'']
      else if c = CHR 0x0C then [CHR 0x5C, CHR ''f'']
      else if (of_char c :: nat) < 32
      then [CHR 0x5C, CHR ''u'', CHR ''0'', CHR ''0'',
            ''0123456789abcdef'' ! (of_char c div 16),
            ''0123456789abcdef'' ! (of_char c mod 16)]
      else [c])"

definition dump_string :: "string \<Rightarrow> string" where
  "dump_string t = [CHR 0x22] @ concat (map escape_char t) @ [CHR 0x22]"

definition dump_float :: "string \<Rightarrow> string" where
  "dump_float r =
     (if r = ''nan'' then ''NaN''
      else if r = ''inf'' then ''Infinity''
      else if r = ''-inf'' then ''-Infinity''
      else r)"

fun newline_indent :: "nat \<Rightarrow> string" where
  "newline_indent 0 = [CHR 0x0A]"
| "newline_indent (Suc level) = newline_indent level @ ''  ''"

fun dumps_at :: "nat \<Rightarrow> json \<Rightarrow> string" where
  "dumps_at level JNull = ''null''"
| "dumps_at level (JBool b) = (if b then ''true'' else ''false'')"
| "dumps_at level (JInt i) = show_int i"
| "dumps_at level (JFloat r) = dump_float r"
| "dumps_at level (JString t) = dump_string t"
| "dumps_at level (JArray xs) =
     (if xs = [] then ''[]''
      else ''['' @ newline_indent (Suc level)
           @ join ('','' @ newline_indent (Suc level)) (map (dumps_at (Suc level)) xs)
           @ newline_indent level @ '']'')"
| "dumps_at level (JObject kvs) =
     (if kvs = [] then ''{}''
      else ''{'' @ newline_indent (Suc level)
           @ join ('','' @ newline_indent (Suc level))
               (map (\<lambda>(k, v). dump_string k @ '': '' @ dumps_at (Suc level) v) kvs)
           @ newline_indent level @ ''}'')"

definition json_dumps :: "json \<Rightarrow> string" where
  "json_dumps d = dumps_at 0 d"

text \<open>
  \<open>str.lower\<close> on ASCII text, for the examples, whose strings are ASCII: the letters
  \<open>A\<close> to \<open>Z\<close> are mapped, every other character is kept. The general theorems hold
  for every function in the place of \<open>str.lower\<close>.
\<close>

definition lower_char :: "char \<Rightarrow> char" where
  "lower_char c =
     (case map_of (zip ''ABCDEFGHIJKLMNOPQRSTUVWXYZ'' ''abcdefghijklmnopqrstuvwxyz'') c of
        None \<Rightarrow> c
      | Some l \<Rightarrow> l)"

definition lower_ascii :: "string \<Rightarrow> string" where
  "lower_ascii t = map lower_char t"

text \<open>
  Two consoles: one whose encoding writes every message (UTF-8), and one whose
  encoding has none of the symbols the messages start with (ASCII, Latin-1, cp1252).
\<close>

definition utf8_console :: "message \<Rightarrow> error option" where
  "utf8_console m = None"

definition legacy_console :: "message \<Rightarrow> error option" where
  "legacy_console m = Some UnicodeEncodeError"

section \<open>Scenarios\<close>

text \<open>Calling \<open>load_portfolio()\<close> twice in a row, the file system being the same.\<close>

definition load_twice :: "world \<Rightarrow> state \<Rightarrow> (error + json) \<times> (error + json) \<times> state" where
  "load_twice w s =
     (case load_portfolio w s of (d1, s1) \<Rightarrow>
      case load_portfolio w s1 of (d2, s2) \<Rightarrow> (d1, d2, s2))"

text \<open>
  A world in which only the portfolio file matters: no index artifacts, \<open>ENABLE_RAG\<close>
  not set, a console that writes every message.
\<close>

definition file_world :: "error + real \<Rightarrow> error + json \<Rightarrow> world" where
  "file_world mtime content =
     \<lparr>stat_mtime = mtime, read_portfolio = content, index_exists = Inr False,
      meta_exists = Inr False, load_index = Inl ImportError,
      read_meta = Inl FileNotFoundError, enable_rag = None, print = utf8_console\<rparr>"

definition old_doc :: json where
  "old_doc = JObject [(''about'', JString ''old'')]"

definition new_doc :: json where
  "new_doc = JObject [(''about'', JString ''new'')]"

text \<open>A portfolio document with one project and one education record.\<close>

definition sample_portfolio :: json where
  "sample_portfolio =
     JObject [(''projects'', JArray [JObject [(''name'', JString ''Chatbot'')]]),
              (''education'', JArray [JObject [(''degree'', JString ''BSc'')]])]"

text \<open>
  The keyword sets of the router by section, in its order of priority (projects,
  skills, experience, education, certifications).
\<close>

definition projects_keywords :: "string list" where
  "projects_keywords = [''project'', ''built'', ''develop'']"

definition skills_keywords :: "string list" where
  "skills_keywords = [''stack'', ''skill'', ''tech'', ''language'', ''framework'']"

definition experience_keywords :: "string list" where
  "experience_keywords = [''work'', ''job'', ''company'', ''experience'', ''role'']"

definition education_keywords :: "string list" where
  "education_keywords = [''degree'', ''university'', ''education'', ''study'', ''college'']"

definition certifications_keywords :: "string list" where
  "certifications_keywords = [''cert'', ''certification'', ''certified'']"

definition keyword_table :: "(string \<times> string list) list" where
  "keyword_table =
     [(''projects'', projects_keywords), (''skills'', skills_keywords),
      (''experience'', experience_keywords), (''education'', education_keywords),
      (''certifications'', certifications_keywords)]"

text \<open>
  The first section of the table, in priority order, one of whose keywords occurs in
  the question taken to lower case by \<open>str.lower\<close>.
\<close>

definition first_matching_section :: "(string \<Rightarrow> string) \<Rightarrow> string \<Rightarrow> string option" where
  "first_matching_section str_lower question =
     map_option fst
       (find (\<lambda>(key, words). any_word_in words (str_lower question)) keyword_table)"

text \<open>
  The serialised section \<open>key\<close> of what \<open>load_portfolio\<close> gave: its exception, if it
  raised one.
\<close>

definition section_content ::
  "(json \<Rightarrow> string) \<Rightarrow> error + json \<Rightarrow> string \<Rightarrow> error + string"
where
  "section_content dumps loaded key =
     (case loaded of
        Inl e \<Rightarrow> Inl e
      | Inr portfolio_data \<Rightarrow> dump_section dumps portfolio_data key)"

text \<open>
  The calls the request layer makes into the store, and a history of the process: a
  list of calls, each with the world it finds.
\<close>

datatype call =
    Load
  | Reload
  | Keyword "string option" string
  | Dense string int
  | Select "string option" string

fun perform ::
  "(json \<Rightarrow> string) \<Rightarrow> (string \<Rightarrow> string) \<Rightarrow> world \<Rightarrow> call \<Rightarrow> state \<Rightarrow> state"
where
  "perform dumps str_lower w Load s = snd (load_portfolio w s)"
| "perform dumps str_lower w Reload s = snd (reload_portfolio w s)"
| "perform dumps str_lower w (Keyword section question) s =
     snd (keyword_context dumps str_lower w s section question)"
| "perform dumps str_lower w (Dense question top_k) s =
     snd (dense_context w s question top_k)"
| "perform dumps str_lower w (Select section question) s =
     snd (select_context dumps str_lower w s section question)"

fun run ::
  "(json \<Rightarrow> string) \<Rightarrow> (string \<Rightarrow> string) \<Rightarrow> (world \<times> call) list \<Rightarrow> state \<Rightarrow> state"
where
  "run dumps str_lower [] s = s"
| "run dumps str_lower ((w, c) # rest) s =
     run dumps str_lower rest (perform dumps str_lower w c s)"

text \<open>
  The life cycle of the retriever read off a record of operations: starting unbuilt
  or built, the constructor may only be called while unbuilt, \<open>search\<close> only once
  built. The result is whether the retriever is built at the end, and \<open>None\<close> if the
  record breaks one of the two rules.
\<close>

fun lifecycle :: "bool \<Rightarrow> event list \<Rightarrow> bool option" where
  "lifecycle built [] = Some built"
| "lifecycle built (Construct ok # evs) = (if built then None else lifecycle ok evs)"
| "lifecycle built (Search # evs) = (if built then lifecycle built evs else None)"
| "lifecycle built (Stat # evs) = lifecycle built evs"
| "lifecycle built (DiskRead # evs) = lifecycle built evs"

text \<open>
  Index artifacts on disk: an index of two vectors that answers a query for five
  neighbours with its two entries and three paddings, and the metadata of its two
  chunks. In \<open>broken_index_world\<close> the artifacts exist but the imports fail; in
  \<open>no_index_world\<close> \<open>ENABLE_RAG\<close> is \<open>true\<close> and the probes find no artifact; in
  \<open>unsearchable_world\<close> the directory of the artifacts may not be searched, and the
  probe of the index raises \<open>PermissionError\<close>.
\<close>

definition two_vector_index :: "string \<Rightarrow> int \<Rightarrow> error + int list" where
  "two_vector_index question top_k = Inr [1, 0, - 1, - 1, - 1]"

definition two_chunks :: "chunk list" where
  "two_chunks = [(''about'', ''About: me''), (''skills:0'', ''Skill: Python'')]"

definition broken_index_world :: world where
  "broken_index_world =
     \<lparr>stat_mtime = Inr 100, read_portfolio = Inr sample_portfolio, index_exists = Inr True,
      meta_exists = Inr True, load_index = Inl ImportError, read_meta = Inr two_chunks,
      enable_rag = Some ''true'', print = utf8_console\<rparr>"

definition working_index_world :: world where
  "working_index_world =
     \<lparr>stat_mtime = Inr 100, read_portfolio = Inr sample_portfolio, index_exists = Inr True,
      meta_exists = Inr True, load_index = Inr two_vector_index, read_meta = Inr two_chunks,
      enable_rag = Some ''true'', print = utf8_console\<rparr>"

definition no_index_world :: world where
  "no_index_world =
     \<lparr>stat_mtime = Inr 100, read_portfolio = Inr sample_portfolio, index_exists = Inr False,
      meta_exists = Inr False, load_index = Inl FileNotFoundError,
      read_meta = Inl FileNotFoundError, enable_rag = Some ''true'', print = utf8_console\<rparr>"

definition unsearchable_world :: world where
  "unsearchable_world =
     \<lparr>stat_mtime = Inr 100, read_portfolio = Inr sample_portfolio,
      index_exists = Inl PermissionError, meta_exists = Inl PermissionError,
      load_index = Inl FileNotFoundError, read_meta = Inl FileNotFoundError,
      enable_rag = Some ''true'', print = utf8_console\<rparr>"

text \<open>
  The text a slot \<open>idx\<close> of the result row contributes when the guard lets it pass
  and the lookup succeeds: a negative \<open>idx\<close> counts from the end of the chunk list.
\<close>

definition slot_text :: "chunk list \<Rightarrow> int \<Rightarrow> string" where
  "slot_text cs idx =
     snd (cs ! nat (if idx < 0 then int (length cs) + idx else idx))"

text \<open>
  Contexts for the link extractor: a JSON text of two certification records with the
  same \<open>url\<close>, a JSON text of three project records that hold six links, two of them
  with the same \<open>url\<close>, and the full-document fallback of the keyword router for
  \<open>sample_portfolio\<close>. \<open>parse_example\<close> is \<open>json.loads\<close> on these three texts; every
  other text of the examples is not JSON. Every \<open>name\<close> in the examples is a string or
  missing, so \<open>str\<close> is not applied in them and \<open>str_example\<close> is never evaluated.
\<close>

definition two_certs_context :: string where
  \<open>two_certs_context =
     ''[{"name": "AWS", "url": "https://x.org/c"}, {"name": "GCP", "url": "https://x.org/c"}]''\<close>

definition two_certs :: json where
  "two_certs =
     JArray [JObject [(''name'', JString ''AWS''), (''url'', JString ''https://x.org/c'')],
             JObject [(''name'', JString ''GCP''), (''url'', JString ''https://x.org/c'')]]"

definition three_projects_context :: string where
  \<open>three_projects_context =
     ''[{"name": "A", "repo": "r1", "demo": "d1"}, {"name": "B", "repo": "r1", "url": "u2"}, {"repo": "r3", "demo": "d3"}]''\<close>

definition three_projects :: "json list" where
  "three_projects =
     [JObject [(''name'', JString ''A''), (''repo'', JString ''r1''), (''demo'', JString ''d1'')],
      JObject [(''name'', JString ''B''), (''repo'', JString ''r1''), (''url'', JString ''u2'')],
      JObject [(''repo'', JString ''r3''), (''demo'', JString ''d3'')]]"

definition parse_example :: "string \<Rightarrow> error + json" where
  "parse_example context =
     (if context = two_certs_context then Inr two_certs
      else if context = three_projects_context then Inr (JArray three_projects)
      else if context = json_dumps sample_portfolio then Inr sample_portfolio
      else Inl JSONDecodeError)"

definition str_example :: "json \<Rightarrow> string" where
  "str_example v = []"

text \<open>
  The links of one record as the specification words them: a \<open>repo\<close> field yields a
  link labelled \<open><name> - GitHub\<close>, a \<open>demo\<close> field one labelled
  \<open><name> - Live Demo\<close>, where a record without a name is called \<open>Project\<close>, and a
  record with both \<open>url\<close> and \<open>name\<close> yields a link labelled by the name. A value that
  is not a record has no field.
\<close>

definition field :: "json \<Rightarrow> string \<Rightarrow> json option" where
  "field item key = (case item of JObject kvs \<Rightarrow> map_of kvs key | _ \<Rightarrow> None)"

definition name_text :: "(json \<Rightarrow> string) \<Rightarrow> json \<Rightarrow> string" where
  "name_text py_str item =
     (case field item ''name'' of
        None \<Rightarrow> ''Project''
      | Some (JString t) \<Rightarrow> t
      | Some v \<Rightarrow> py_str v)"

definition repo_link :: "(json \<Rightarrow> string) \<Rightarrow> json \<Rightarrow> link option" where
  "repo_link py_str item =
     map_option (\<lambda>u. \<lparr>label = JString (name_text py_str item @ '' - GitHub''), url = u\<rparr>)
       (field item ''repo'')"

definition demo_link :: "(json \<Rightarrow> string) \<Rightarrow> json \<Rightarrow> link option" where
  "demo_link py_str item =
     map_option (\<lambda>u. \<lparr>label = JString (name_text py_str item @ '' - Live Demo''), url = u\<rparr>)
       (field item ''demo'')"

definition named_url_link :: "json \<Rightarrow> link option" where
  "named_url_link item =
     (case field item ''url'' of
        None \<Rightarrow> None
      | Some u \<Rightarrow> map_option (\<lambda>n. \<lparr>label = n, url = u\<rparr>) (field item ''name''))"

definition record_links :: "(json \<Rightarrow> string) \<Rightarrow> json \<Rightarrow> link list" where
  "record_links py_str item =
     List.map_filter id [repo_link py_str item, demo_link py_str item, named_url_link item]"

section \<open>Theorems\<close>

subsection \<open>Portfolio store: failures\<close>

lemma load_portfolio_try_stat_fails:
  "stat_mtime w = Inl e \<Longrightarrow> load_portfolio_try w s = (Inl e, log_event Stat s)"
  by (simp add: load_portfolio_try_def)

lemma load_portfolio_try_read_fails:
  assumes "stat_mtime w = Inr m"
    and "cache_data s = JNull \<or> m > cache_last_modified s"
    and "read_portfolio w = Inl e"
  shows "load_portfolio_try w s = (Inl e, log_event DiskRead (log_event Stat s))"
  using assms by (auto simp add: load_portfolio_try_def log_event_def Let_def)

lemma load_portfolio_handler:
  "fst (load_portfolio_try w s) = Inl e
   \<Longrightarrow> fst (load_portfolio w s)
       = (case print w ErrorLoadingPortfolio of
            None \<Rightarrow> Inr (JObject [])
          | Some e' \<Rightarrow> Inl e')"
  by (cases "load_portfolio_try w s") (simp add: load_portfolio_def split: option.splits)

text \<open>
  C7, as the code has it. Whenever the \<open>stat\<close> of the portfolio file fails (a missing
  file), or the file is due for a read and opening or parsing it fails (an I/O
  error, malformed JSON), the exception reaches the handler of \<open>load_portfolio\<close>. The
  handler prints its message first: if the message is written, the call returns the
  empty document \<open>{}\<close>; if the \<open>print\<close> raises, that exception is raised to the
  caller.
\<close>

theorem load_portfolio_failure_gives_empty_document:
  assumes "stat_mtime w = Inl e
         \<or> (\<exists>m. stat_mtime w = Inr m
                \<and> (cache_data s = JNull \<or> m > cache_last_modified s)
                \<and> read_portfolio w = Inl e)"
  shows "fst (load_portfolio_try w s) = Inl e
       \<and> fst (load_portfolio w s)
         = (case print w ErrorLoadingPortfolio of
              None \<Rightarrow> Inr (JObject [])
            | Some e' \<Rightarrow> Inl e')"
proof -
  from assms have "fst (load_portfolio_try w s) = Inl e"
    by (auto simp add: load_portfolio_try_stat_fails load_portfolio_try_read_fails)
  then show ?thesis
    using load_portfolio_handler [of w s e] by simp
qed

theorem load_portfolio_failure_gives_empty_document_witness:
  "fst (load_portfolio_try (file_world (Inr 100) (Inl JSONDecodeError)) initial_state)
     = Inl JSONDecodeError
   \<and> print (file_world (Inr 100) (Inl JSONDecodeError)) ErrorLoadingPortfolio = None
   \<and> fst (load_portfolio (file_world (Inr 100) (Inl JSONDecodeError)) initial_state)
     = Inr (JObject [])"
  using load_portfolio_failure_gives_empty_document
    [of "file_world (Inr 100) (Inl JSONDecodeError)" JSONDecodeError initial_state]
  by (simp add: file_world_def initial_state_def utf8_console_def)

text \<open>
  C7 as stated fails where the standard output cannot encode the symbol the message
  of the handler starts with: the file is missing, the handler's \<open>print\<close> raises
  \<open>UnicodeEncodeError\<close>, and \<open>load_portfolio\<close> raises it to its caller instead of
  returning the empty document.
\<close>

theorem load_portfolio_raises_on_legacy_console:
  "fst (load_portfolio
          ((file_world (Inl FileNotFoundError) (Inl FileNotFoundError))
             \<lparr>print := legacy_console\<rparr>)
          initial_state)
   = Inl UnicodeEncodeError"
  by (simp add: load_portfolio_def load_portfolio_try_def file_world_def
      initial_state_def legacy_console_def)

subsection \<open>Portfolio store: the cache\<close>

lemma load_portfolio_cached:
  assumes "stat_mtime w = Inr m" and "cache_data s \<noteq> JNull"
    and "\<not> m > cache_last_modified s"
  shows "load_portfolio w s = (Inr (cache_data s), log_event Stat s)"
  using assms by (simp add: load_portfolio_def load_portfolio_try_def log_event_def)

lemma load_portfolio_reads:
  assumes "stat_mtime w = Inr m" and "cache_data s = JNull \<or> m > cache_last_modified s"
    and "read_portfolio w = Inr d" and "print w PortfolioReloaded = None"
  shows "load_portfolio w s =
           (Inr d, s\<lparr>cache_data := d, cache_last_modified := m,
                     trace := trace s @ [Stat, DiskRead]\<rparr>)"
  using assms by (auto simp add: load_portfolio_def load_portfolio_try_def log_event_def)

lemma load_portfolio_try_success:
  assumes "load_portfolio_try w s = (Inr d, s1)"
  shows "\<exists>m. stat_mtime w = Inr m \<and> cache_data s1 = d \<and> \<not> m > cache_last_modified s1
             \<and> (trace s1 = trace s @ [Stat] \<or> trace s1 = trace s @ [Stat, DiskRead])"
proof (cases "stat_mtime w")
  case (Inl e)
  with assms show ?thesis by (simp add: load_portfolio_try_def)
next
  case (Inr m)
  show ?thesis
  proof (cases "cache_data s = JNull \<or> m > cache_last_modified s")
    case False
    with Inr assms show ?thesis
      by (auto simp add: load_portfolio_try_def log_event_def)
  next
    case True
    show ?thesis
    proof (cases "read_portfolio w")
      case (Inl e)
      with True Inr assms show ?thesis
        by (auto simp add: load_portfolio_try_def log_event_def)
    next
      case r: (Inr d')
      with True Inr assms show ?thesis
        by (auto simp add: load_portfolio_try_def log_event_def Let_def
            split: option.splits)
    qed
  qed
qed

text \<open>
  C5, as the code has it. When the first \<open>load_portfolio()\<close> returns a document \<open>d\<close>
  other than \<open>null\<close> without an exception in its \<open>try\<close> block, a second call on the same
  file system returns the same \<open>d\<close> and only adds a \<open>stat\<close> to the operations of the
  first: the two calls together open the file at most once.
\<close>

theorem load_twice_one_disk_read:
  assumes "load_portfolio_try w s = (Inr d, s1)" and "d \<noteq> JNull"
  shows "load_twice w s = (Inr d, Inr d, log_event Stat s1)
       \<and> (\<exists>evs. trace (log_event Stat s1) = trace s @ evs \<and> count_list evs DiskRead \<le> 1)"
proof -
  from load_portfolio_try_success [OF assms(1)] obtain m where
    m: "stat_mtime w = Inr m" and d: "cache_data s1 = d"
    and fresh: "\<not> m > cache_last_modified s1"
    and tr: "trace s1 = trace s @ [Stat] \<or> trace s1 = trace s @ [Stat, DiskRead]"
    by blast
  have first: "load_portfolio w s = (Inr d, s1)"
    using assms(1) by (simp add: load_portfolio_def)
  have second: "load_portfolio w s1 = (Inr d, log_event Stat s1)"
    using load_portfolio_cached [OF m _ fresh] d assms(2) by simp
  have "load_twice w s = (Inr d, Inr d, log_event Stat s1)"
    by (simp add: load_twice_def first second)
  moreover from tr have
    "\<exists>evs. trace (log_event Stat s1) = trace s @ evs \<and> count_list evs DiskRead \<le> 1"
  proof
    assume "trace s1 = trace s @ [Stat]"
    then have "trace (log_event Stat s1) = trace s @ [Stat, Stat]
             \<and> count_list [Stat, Stat] DiskRead \<le> 1"
      by (simp add: log_event_def)
    then show ?thesis by blast
  next
    assume "trace s1 = trace s @ [Stat, DiskRead]"
    then have "trace (log_event Stat s1) = trace s @ [Stat, DiskRead, Stat]
             \<and> count_list [Stat, DiskRead, Stat] DiskRead \<le> 1"
      by (simp add: log_event_def)
    then show ?thesis by blast
  qed
  ultimately show ?thesis by simp
qed

theorem load_twice_one_disk_read_witness:
  "load_twice (file_world (Inr 100) (Inr old_doc)) initial_state
     = (Inr old_doc, Inr old_doc,
        \<lparr>cache_data = old_doc, cache_last_modified = 100, dense_retriever = None,
         trace = [Stat, DiskRead, Stat]\<rparr>)"
  using load_twice_one_disk_read
    [of "file_world (Inr 100) (Inr old_doc)" initial_state old_doc
        "\<lparr>cache_data = old_doc, cache_last_modified = 100, dense_retriever = None,
          trace = [Stat, DiskRead]\<rparr>"]
  by (simp add: load_portfolio_try_def file_world_def initial_state_def log_event_def
      old_doc_def utf8_console_def)

text \<open>
  C5 as stated fails when the file cannot be parsed: nothing is cached, and each of the
  two calls opens the file.
\<close>

theorem load_twice_malformed_reads_twice:
  "count_list
     (trace (snd (snd (load_twice (file_world (Inr 100) (Inl JSONDecodeError)) initial_state))))
     DiskRead = 2"
  by (simp add: load_twice_def load_portfolio_def load_portfolio_try_def file_world_def
      initial_state_def log_event_def utf8_console_def)

text \<open>
  C6 at a file whose modification time is the epoch, \<open>0.0\<close>. The first call loads
  \<open>old_doc\<close>; the file then holds \<open>new_doc\<close>, its modification time unchanged.
  \<open>reload_portfolio\<close> sets the cached timestamp to \<open>0\<close>, the test \<open>0.0 > 0\<close> fails, and
  the call returns the cached \<open>old_doc\<close> without opening the file.
\<close>

theorem reload_portfolio_epoch_mtime_stale:
  "reload_portfolio (file_world (Inr 0) (Inr new_doc))
     (snd (load_portfolio (file_world (Inr 0) (Inr old_doc)) initial_state))
   = (Inr old_doc,
      \<lparr>cache_data = old_doc, cache_last_modified = 0, dense_retriever = None,
       trace = [Stat, DiskRead, Stat]\<rparr>)"
  by (simp add: reload_portfolio_def load_portfolio_def load_portfolio_try_def file_world_def
      initial_state_def log_event_def old_doc_def new_doc_def utf8_console_def)

text \<open>
  Where the file's modification time is after the epoch and the file can be read,
  \<open>reload_portfolio\<close> does open the file and returns what it holds.
\<close>

lemma reload_portfolio_rereads:
  assumes "stat_mtime w = Inr m" and "0 < m" and "read_portfolio w = Inr d"
    and "print w PortfolioReloaded = None"
  shows "reload_portfolio w s =
           (Inr d, s\<lparr>cache_data := d, cache_last_modified := m,
                     trace := trace s @ [Stat, DiskRead]\<rparr>)"
  using load_portfolio_reads [OF assms(1) _ assms(3) assms(4), of "s\<lparr>cache_last_modified := 0\<rparr>"]
    assms(2)
  by (simp add: reload_portfolio_def)

subsection \<open>Keyword router\<close>

lemma keyword_context_state:
  "snd (keyword_context dumps str_lower w s section question) = snd (load_portfolio w s)"
proof (cases "load_portfolio w s")
  case (Pair loaded s')
  then show ?thesis
    by (cases loaded) (simp_all add: keyword_context_def Let_def)
qed

text \<open>
  C9. Without a section hint, a question in which a keyword of some section occurs,
  once \<open>str.lower\<close> has been applied to it, is answered with the content of the first
  such section in the order projects, skills, experience, education,
  certifications, whatever later sections match as well. The question
  \<open>what skills and projects have you built\<close>, which \<open>str.lower\<close> leaves as it is,
  resolves to the projects section.
\<close>

theorem keyword_context_priority:
  "(first_matching_section str_lower question = Some key
    \<longrightarrow> fst (keyword_context dumps str_lower w s None question)
        = section_content dumps (fst (load_portfolio w s)) key)
   \<and> (str_lower ''what skills and projects have you built''
        = ''what skills and projects have you built''
      \<longrightarrow> any_word_in projects_keywords (str_lower ''what skills and projects have you built'')
          \<and> any_word_in skills_keywords (str_lower ''what skills and projects have you built'')
          \<and> first_matching_section str_lower ''what skills and projects have you built''
              = Some ''projects'')"
proof
  show "first_matching_section str_lower question = Some key
    \<longrightarrow> fst (keyword_context dumps str_lower w s None question)
        = section_content dumps (fst (load_portfolio w s)) key"
  proof (cases "load_portfolio w s")
    case (Pair loaded s')
    show ?thesis
    proof (cases loaded)
      case (Inl e)
      with Pair show ?thesis
        by (simp add: keyword_context_def section_content_def)
    next
      case (Inr portfolio_data)
      with Pair show ?thesis
        by (auto simp add: keyword_context_def section_content_def
            first_matching_section_def keyword_table_def
            projects_keywords_def skills_keywords_def experience_keywords_def
            education_keywords_def certifications_keywords_def Let_def
            split: if_splits)
    qed
  qed
next
  show "str_lower ''what skills and projects have you built''
        = ''what skills and projects have you built''
      \<longrightarrow> any_word_in projects_keywords (str_lower ''what skills and projects have you built'')
          \<and> any_word_in skills_keywords (str_lower ''what skills and projects have you built'')
          \<and> first_matching_section str_lower ''what skills and projects have you built''
              = Some ''projects''"
    by (simp add: first_matching_section_def keyword_table_def projects_keywords_def
        skills_keywords_def any_word_in_def)
qed

theorem keyword_context_priority_witness:
  "lower_ascii ''what skills and projects have you built''
     = ''what skills and projects have you built''
   \<and> first_matching_section lower_ascii ''what skills and projects have you built''
     = Some ''projects''
   \<and> fst (keyword_context json_dumps lower_ascii (file_world (Inr 100) (Inr sample_portfolio))
            initial_state None ''what skills and projects have you built'')
     = dump_section json_dumps sample_portfolio ''projects''"
proof -
  note inst = keyword_context_priority
    [where str_lower = lower_ascii and dumps = json_dumps
       and question = "''what skills and projects have you built''"
       and key = "''projects''"
       and w = "file_world (Inr 100) (Inr sample_portfolio)" and s = initial_state]
  have q: "lower_ascii ''what skills and projects have you built''
           = ''what skills and projects have you built''"
    by (simp add: lower_ascii_def lower_char_def)
  have l: "fst (load_portfolio (file_world (Inr 100) (Inr sample_portfolio)) initial_state)
           = Inr sample_portfolio"
    by (simp add: load_portfolio_def load_portfolio_try_def file_world_def
        initial_state_def log_event_def utf8_console_def)
  from inst q have m: "first_matching_section lower_ascii
      ''what skills and projects have you built'' = Some ''projects''"
    by blast
  with inst have "fst (keyword_context json_dumps lower_ascii
            (file_world (Inr 100) (Inr sample_portfolio))
            initial_state None ''what skills and projects have you built'')
     = section_content json_dumps
         (fst (load_portfolio (file_world (Inr 100) (Inr sample_portfolio)) initial_state))
         ''projects''"
    by blast
  with l q m show ?thesis by (simp add: section_content_def)
qed

text \<open>
  C2, as the code has it. With the section hint \<open>EDUCATION\<close> the router tests the
  projects, skills and experience branches first, each of which a keyword in the
  question, taken to lower case by \<open>str.lower\<close>, opens; the education content is
  returned exactly when none of their keywords occurs in it, and otherwise the
  first of these three sections whose keyword occurs is returned.
\<close>

theorem education_hint_routing:
  "fst (keyword_context dumps str_lower w s (Some ''EDUCATION'') question)
   = section_content dumps (fst (load_portfolio w s))
       (if any_word_in projects_keywords (str_lower question) then ''projects''
        else if any_word_in skills_keywords (str_lower question) then ''skills''
        else if any_word_in experience_keywords (str_lower question) then ''experience''
        else ''education'')"
proof (cases "load_portfolio w s")
  case (Pair loaded s')
  then show ?thesis
    by (cases loaded)
      (simp_all add: keyword_context_def section_content_def projects_keywords_def
        skills_keywords_def experience_keywords_def Let_def)
qed

theorem education_hint_routing_witness:
  \<open>fst (keyword_context json_dumps lower_ascii (file_world (Inr 100) (Inr sample_portfolio))
          initial_state (Some ''EDUCATION'') ''Tell me more'')
   = Inr ''[\<newline>  {\<newline>    "degree": "BSc"\<newline>  }\<newline>]''\<close>
proof -
  have l: "fst (load_portfolio (file_world (Inr 100) (Inr sample_portfolio)) initial_state)
           = Inr sample_portfolio"
    by (simp add: load_portfolio_def load_portfolio_try_def file_world_def
        initial_state_def log_event_def utf8_console_def)
  have q: "lower_ascii ''Tell me more'' = ''tell me more''"
    by (simp add: lower_ascii_def lower_char_def)
  have d: \<open>dump_section json_dumps sample_portfolio ''education''
           = Inr ''[\<newline>  {\<newline>    "degree": "BSc"\<newline>  }\<newline>]''\<close>
    by (simp add: dump_section_def dict_get_def sample_portfolio_def json_dumps_def
        dump_string_def escape_char_def)
  from education_hint_routing [of json_dumps lower_ascii
      "file_world (Inr 100) (Inr sample_portfolio)" initial_state "''Tell me more''"] l q d
  show ?thesis
    by (simp add: projects_keywords_def skills_keywords_def experience_keywords_def
        any_word_in_def section_content_def)
qed

text \<open>
  C2 as stated fails at a question that names a project: with the hint \<open>EDUCATION\<close>
  the router returns the projects of the document, not its education records.
\<close>

theorem education_hint_project_question:
  \<open>fst (keyword_context json_dumps lower_ascii (file_world (Inr 100) (Inr sample_portfolio))
          initial_state (Some ''EDUCATION'') ''Which projects did you do at university?'')
     = Inr ''[\<newline>  {\<newline>    "name": "Chatbot"\<newline>  }\<newline>]''
   \<and> dump_section json_dumps sample_portfolio ''education''
     = Inr ''[\<newline>  {\<newline>    "degree": "BSc"\<newline>  }\<newline>]''\<close>
  by (simp add: keyword_context_def load_portfolio_def load_portfolio_try_def file_world_def
      initial_state_def log_event_def lower_ascii_def lower_char_def any_word_in_def
      dump_section_def dict_get_def sample_portfolio_def json_dumps_def
      dump_string_def escape_char_def utf8_console_def)

text \<open>
  A question with the Kelvin sign (U+212A, the bytes \<open>E2 84 AA\<close>), which \<open>str.lower\<close>
  maps to the letter \<open>k\<close>: with the hint \<open>EDUCATION\<close> it is routed to the experience
  section, by the keyword \<open>work\<close>.
\<close>

lemma education_hint_kelvin_sign:
  assumes "str_lower (''WOR'' @ [CHR 0xE2, CHR 0x84, CHR 0xAA] @ '' history'')
           = ''work history''"
  shows "fst (keyword_context dumps str_lower w s (Some ''EDUCATION'')
                (''WOR'' @ [CHR 0xE2, CHR 0x84, CHR 0xAA] @ '' history''))
         = section_content dumps (fst (load_portfolio w s)) ''experience''"
proof (cases "load_portfolio w s")
  case (Pair loaded s')
  with assms show ?thesis
    by (cases loaded)
      (simp_all add: keyword_context_def section_content_def any_word_in_def Let_def)
qed

subsection \<open>Dense retriever: the loop of \<open>search\<close>\<close>

lemma py_index_slot:
  assumes "- int (length cs) \<le> idx" and "idx < int (length cs)"
  shows "py_index cs idx = Inr (cs ! nat (if idx < 0 then int (length cs) + idx else idx))"
  using assms by (simp add: py_index_def Let_def)

lemma py_index_below:
  "idx < - int (length cs) \<Longrightarrow> py_index cs idx = Inl IndexError"
  by (simp add: py_index_def Let_def)

lemma select_chunks_row:
  "select_chunks cs row acc
   = (if \<exists>idx \<in> set row. idx < - int (length cs) then Inl IndexError
      else Inr (acc @ map (slot_text cs) (filter (\<lambda>idx. idx < int (length cs)) row)))"
proof (induction row arbitrary: acc)
  case Nil
  then show ?case by simp
next
  case (Cons idx row)
  show ?case
  proof (cases "idx < int (length cs)")
    case False
    then have "\<not> idx < - int (length cs)" by simp
    with False Cons show ?thesis by simp
  next
    case True
    show ?thesis
    proof (cases "idx < - int (length cs)")
      case below: True
      with True show ?thesis by (simp add: py_index_below)
    next
      case False
      then have "- int (length cs) \<le> idx" by simp
      from py_index_slot [OF this True] True False Cons show ?thesis
        by (simp add: slot_text_def split: prod.splits)
    qed
  qed
qed

lemma slot_text_last: "cs \<noteq> [] \<Longrightarrow> slot_text cs (- 1) = snd (last cs)"
proof -
  assume ne: "cs \<noteq> []"
  then have "0 < length cs" by simp
  then have "nat (int (length cs) + - 1) = length cs - 1" by simp
  with ne show ?thesis by (simp add: slot_text_def last_conv_nth)
qed

text \<open>
  C10, as the code has it. The guard \<open>idx < len(self.chunks)\<close> lets every negative
  index pass. For a retriever with at least one chunk and a result row that holds the
  padding \<open>-1\<close>, \<open>search\<close> raises \<open>IndexError\<close> if some entry of the row lies below
  minus the number of chunks, and otherwise returns the texts of all slots below the
  number of chunks joined by blank lines; the padding slot is among them and
  contributes the text of the last chunk of the metadata list.
\<close>

theorem search_padding_appends_last_chunk:
  assumes "chunks r \<noteq> []" and "nearest r question top_k = Inr row" and "- 1 \<in> set row"
  shows "search r question top_k
         = (if \<exists>idx \<in> set row. idx < - int (length (chunks r)) then Inl IndexError
            else Inr (join [CHR 0x0A, CHR 0x0A]
                        (map (slot_text (chunks r))
                           (filter (\<lambda>idx. idx < int (length (chunks r))) row))))
       \<and> - 1 \<in> set (filter (\<lambda>idx. idx < int (length (chunks r))) row)
       \<and> slot_text (chunks r) (- 1) = snd (last (chunks r))"
proof -
  have "search r question top_k
         = (if \<exists>idx \<in> set row. idx < - int (length (chunks r)) then Inl IndexError
            else Inr (join [CHR 0x0A, CHR 0x0A]
                        (map (slot_text (chunks r))
                           (filter (\<lambda>idx. idx < int (length (chunks r))) row))))"
    using select_chunks_row [of "chunks r" row "[]"]
    by (simp add: search_def assms(2))
  moreover from assms(3) have
    "- 1 \<in> set (filter (\<lambda>idx. idx < int (length (chunks r))) row)"
    by simp
  ultimately show ?thesis using slot_text_last [OF assms(1)] by simp
qed

theorem search_padding_appends_last_chunk_witness:
  "search \<lparr>nearest = two_vector_index, chunks = two_chunks\<rparr> ''python?'' 5
   = Inr ''Skill: Python\<newline>\<newline>About: me\<newline>\<newline>Skill: Python\<newline>\<newline>Skill: Python\<newline>\<newline>Skill: Python''"
  using search_padding_appends_last_chunk
    [of "\<lparr>nearest = two_vector_index, chunks = two_chunks\<rparr>" "''python?''" 5
        "[1, 0, - 1, - 1, - 1]"]
  by (simp add: two_vector_index_def two_chunks_def slot_text_def)

text \<open>
  C10 as stated fails for a retriever without chunks: the guard lets the padding pass
  all the same, there is no last chunk, and the lookup raises \<open>IndexError\<close>; no text
  is appended and no context returned.
\<close>

theorem search_padding_without_chunks_raises:
  "search \<lparr>nearest = two_vector_index, chunks = []\<rparr> ''python?'' 5 = Inl IndexError"
  by (simp add: search_def two_vector_index_def py_index_def)

lemma search_padding_no_chunks:
  assumes "chunks r = []" and "nearest r question top_k = Inr row" and "- 1 \<in> set row"
  shows "search r question top_k = Inl IndexError"
proof -
  from assms(1,3) have "\<exists>idx \<in> set row. idx < - int (length (chunks r))"
    by (intro bexI [of _ "- 1"]) simp_all
  then show ?thesis
    using select_chunks_row [of "chunks r" row "[]"] by (simp add: search_def assms(2))
qed

subsection \<open>Dense retriever: construction\<close>

lemma lifecycle_append:
  "lifecycle built (xs @ ys)
   = (case lifecycle built xs of None \<Rightarrow> None | Some built' \<Rightarrow> lifecycle built' ys)"
proof (induction xs arbitrary: built)
  case Nil
  then show ?case by simp
next
  case (Cons e xs)
  then show ?case by (cases e) simp_all
qed

lemma load_portfolio_try_frame:
  "dense_retriever (snd (load_portfolio_try w s)) = dense_retriever s
   \<and> (trace (snd (load_portfolio_try w s)) = trace s @ [Stat]
      \<or> trace (snd (load_portfolio_try w s)) = trace s @ [Stat, DiskRead])"
  by (auto simp add: load_portfolio_try_def log_event_def Let_def
      split: sum.splits option.splits)

lemma load_portfolio_snd: "snd (load_portfolio w s) = snd (load_portfolio_try w s)"
  by (cases "load_portfolio_try w s")
    (simp add: load_portfolio_def split: sum.splits option.splits)

lemma load_portfolio_frame:
  "dense_retriever (snd (load_portfolio w s)) = dense_retriever s
   \<and> (trace (snd (load_portfolio w s)) = trace s @ [Stat]
      \<or> trace (snd (load_portfolio w s)) = trace s @ [Stat, DiskRead])"
  using load_portfolio_try_frame [of w s] by (simp add: load_portfolio_snd)

lemma reload_portfolio_frame:
  "dense_retriever (snd (reload_portfolio w s)) = dense_retriever s
   \<and> (trace (snd (reload_portfolio w s)) = trace s @ [Stat]
      \<or> trace (snd (reload_portfolio w s)) = trace s @ [Stat, DiskRead])"
  using load_portfolio_frame [of w "s\<lparr>cache_last_modified := 0\<rparr>"]
  by (simp add: reload_portfolio_def)

lemma load_portfolio_keeps_lifecycle:
  assumes "lifecycle False (trace s) = Some (dense_retriever s \<noteq> None)"
  shows "lifecycle False (trace (snd (load_portfolio w s)))
         = Some (dense_retriever (snd (load_portfolio w s)) \<noteq> None)"
  using load_portfolio_frame [of w s] assms by (auto simp add: lifecycle_append)

lemma reload_portfolio_keeps_lifecycle:
  assumes "lifecycle False (trace s) = Some (dense_retriever s \<noteq> None)"
  shows "lifecycle False (trace (snd (reload_portfolio w s)))
         = Some (dense_retriever (snd (reload_portfolio w s)) \<noteq> None)"
  using reload_portfolio_frame [of w s] assms by (auto simp add: lifecycle_append)

lemma keyword_context_keeps_lifecycle:
  assumes "lifecycle False (trace s) = Some (dense_retriever s \<noteq> None)"
  shows "lifecycle False (trace (snd (keyword_context dumps str_lower w s section question)))
         = Some (dense_retriever (snd (keyword_context dumps str_lower w s section question))
                 \<noteq> None)"
  using load_portfolio_keeps_lifecycle [OF assms] by (simp add: keyword_context_state)

lemma keyword_fallback_keeps_lifecycle:
  assumes "lifecycle False (trace s) = Some (dense_retriever s \<noteq> None)"
  shows "lifecycle False (trace (snd (keyword_fallback dumps str_lower w s section question)))
         = Some (dense_retriever (snd (keyword_fallback dumps str_lower w s section question))
                 \<noteq> None)"
  using keyword_context_keeps_lifecycle [OF assms] assms
  by (simp add: keyword_fallback_def split: option.splits)

lemma artifact_missing_present:
  "index_exists w = Inr True \<Longrightarrow> meta_exists w = Inr True \<Longrightarrow> artifact_missing w = Inr False"
  by (simp add: artifact_missing_def)

lemma dense_context_not_probed:
  "artifact_missing w \<noteq> Inr False \<Longrightarrow> snd (dense_context w s question top_k) = s"
  by (cases "artifact_missing w") (simp_all add: dense_context_def)

lemma dense_context_absent:
  "artifact_missing w = Inr True \<Longrightarrow> dense_context w s question top_k = (Inr [], s)"
  by (simp add: dense_context_def)

lemma dense_context_construct_fails:
  assumes "artifact_missing w = Inr False" and "dense_retriever s = None"
    and "DenseRetriever_init w = Inl e"
  shows "dense_context w s question top_k = (Inr [], log_event (Construct False) s)"
  using assms by (simp add: dense_context_def)

lemma dense_context_constructs:
  assumes "artifact_missing w = Inr False" and "dense_retriever s = None"
    and "DenseRetriever_init w = Inr r"
  shows "snd (dense_context w s question top_k)
         = s\<lparr>dense_retriever := Some r, trace := trace s @ [Construct True, Search]\<rparr>"
  using assms
  by (simp add: dense_context_def log_event_def split: sum.splits option.splits)

lemma dense_context_built:
  assumes "artifact_missing w = Inr False" and "dense_retriever s = Some r"
  shows "snd (dense_context w s question top_k) = log_event Search s"
  using assms by (simp add: dense_context_def split: sum.splits option.splits)

lemma dense_context_keeps_lifecycle:
  assumes "lifecycle False (trace s) = Some (dense_retriever s \<noteq> None)"
  shows "lifecycle False (trace (snd (dense_context w s question top_k)))
         = Some (dense_retriever (snd (dense_context w s question top_k)) \<noteq> None)"
proof (cases "artifact_missing w = Inr False")
  case False
  with dense_context_not_probed [of w s question top_k] assms show ?thesis by simp
next
  case present: True
  show ?thesis
  proof (cases "dense_retriever s")
    case (Some r)
    from dense_context_built [OF present Some] assms Some show ?thesis
      by (simp add: log_event_def lifecycle_append)
  next
    case None
    show ?thesis
    proof (cases "DenseRetriever_init w")
      case (Inl e)
      from dense_context_construct_fails [OF present None Inl] assms None show ?thesis
        by (simp add: log_event_def lifecycle_append)
    next
      case (Inr r)
      from dense_context_constructs [OF present None Inr] assms None show ?thesis
        by (simp add: lifecycle_append)
    qed
  qed
qed

lemma select_context_keeps_lifecycle:
  assumes "lifecycle False (trace s) = Some (dense_retriever s \<noteq> None)"
  shows "lifecycle False (trace (snd (select_context dumps str_lower w s section question)))
         = Some (dense_retriever (snd (select_context dumps str_lower w s section question))
                 \<noteq> None)"
proof (cases "rag_enabled str_lower w")
  case False
  with keyword_fallback_keeps_lifecycle [OF assms] show ?thesis
    by (simp add: select_context_def)
next
  case True
  obtain res s' where d: "dense_context w s question 5 = (res, s')"
    by (cases "dense_context w s question 5")
  from dense_context_keeps_lifecycle [OF assms, of w question 5] d
  have s': "lifecycle False (trace s') = Some (dense_retriever s' \<noteq> None)" by simp
  show ?thesis
  proof (cases res)
    case (Inl e)
    with True d s' show ?thesis by (simp add: select_context_def)
  next
    case (Inr vc)
    show ?thesis
    proof (cases "vc = []")
      case False
      with True d s' Inr show ?thesis
        by (simp add: select_context_def split: option.splits)
    next
      case e: True
      with True d Inr keyword_fallback_keeps_lifecycle [OF s'] show ?thesis
        by (simp add: select_context_def)
    qed
  qed
qed

lemma perform_keeps_lifecycle:
  assumes "lifecycle False (trace s) = Some (dense_retriever s \<noteq> None)"
  shows "lifecycle False (trace (perform dumps str_lower w c s))
         = Some (dense_retriever (perform dumps str_lower w c s) \<noteq> None)"
proof (cases c)
  case Load
  with load_portfolio_keeps_lifecycle [OF assms] show ?thesis by simp
next
  case Reload
  with reload_portfolio_keeps_lifecycle [OF assms] show ?thesis by simp
next
  case (Keyword hint question)
  with keyword_context_keeps_lifecycle [OF assms] show ?thesis by simp
next
  case (Dense question top_k)
  with dense_context_keeps_lifecycle [OF assms] show ?thesis by simp
next
  case (Select hint question)
  with select_context_keeps_lifecycle [OF assms] show ?thesis by simp
qed

lemma run_keeps_lifecycle:
  "lifecycle False (trace s) = Some (dense_retriever s \<noteq> None)
   \<Longrightarrow> lifecycle False (trace (run dumps str_lower history s))
       = Some (dense_retriever (run dumps str_lower history s) \<noteq> None)"
proof (induction history arbitrary: s)
  case Nil
  then show ?case by simp
next
  case (Cons wc history)
  obtain w c where wc: "wc = (w, c)" by (cases wc)
  from Cons.IH [OF perform_keeps_lifecycle [OF Cons.prems]] wc show ?case by simp
qed

text \<open>
  C3, as the code has it. In every history of calls of a process, the constructor is
  called only while no retriever has been constructed, so it returns an instance at
  most once and is never called after that, and \<open>search\<close> is called only on a
  constructed retriever. The store keeps no mark of a failed attempt: whenever the
  artifacts exist, no retriever has been constructed and the construction raises,
  \<open>dense_context\<close> calls the constructor, returns the empty context without calling
  \<open>search\<close>, and leaves the retriever unbuilt, whatever happened in earlier calls.
\<close>

theorem retriever_lifecycle:
  "lifecycle False (trace (run dumps str_lower history initial_state))
   = Some (dense_retriever (run dumps str_lower history initial_state) \<noteq> None)
   \<and> (index_exists w = Inr True \<and> meta_exists w = Inr True \<and> dense_retriever s = None
        \<and> DenseRetriever_init w = Inl e
      \<longrightarrow> dense_context w s question top_k = (Inr [], log_event (Construct False) s)
          \<and> dense_retriever (log_event (Construct False) s) = None)"
proof
  show "lifecycle False (trace (run dumps str_lower history initial_state))
        = Some (dense_retriever (run dumps str_lower history initial_state) \<noteq> None)"
    by (rule run_keeps_lifecycle) (simp add: initial_state_def)
next
  show "index_exists w = Inr True \<and> meta_exists w = Inr True \<and> dense_retriever s = None
        \<and> DenseRetriever_init w = Inl e
      \<longrightarrow> dense_context w s question top_k = (Inr [], log_event (Construct False) s)
          \<and> dense_retriever (log_event (Construct False) s) = None"
    by (simp add: dense_context_construct_fails artifact_missing_present log_event_def)
qed

theorem retriever_lifecycle_witness:
  "trace (run json_dumps lower_ascii
            [(broken_index_world, Dense ''python?'' 5),
             (broken_index_world, Dense ''python?'' 5),
             (working_index_world, Dense ''python?'' 5),
             (broken_index_world, Dense ''python?'' 5)] initial_state)
     = [Construct False, Construct False, Construct True, Search, Search]
   \<and> lifecycle False [Construct False, Construct False, Construct True, Search, Search]
     = Some True
   \<and> index_exists broken_index_world = Inr True \<and> meta_exists broken_index_world = Inr True
   \<and> dense_retriever initial_state = None
   \<and> DenseRetriever_init broken_index_world = Inl ImportError
   \<and> dense_context broken_index_world initial_state ''python?'' 5
     = (Inr [], log_event (Construct False) initial_state)"
proof -
  note inst = retriever_lifecycle
    [where dumps = json_dumps and str_lower = lower_ascii and w = broken_index_world
       and s = initial_state and e = ImportError and question = "''python?''" and top_k = 5
       and history = "[(broken_index_world, Dense ''python?'' 5),
                       (broken_index_world, Dense ''python?'' 5),
                       (working_index_world, Dense ''python?'' 5),
                       (broken_index_world, Dense ''python?'' 5)]"]
  have tr: "trace (run json_dumps lower_ascii
            [(broken_index_world, Dense ''python?'' 5),
             (broken_index_world, Dense ''python?'' 5),
             (working_index_world, Dense ''python?'' 5),
             (broken_index_world, Dense ''python?'' 5)] initial_state)
     = [Construct False, Construct False, Construct True, Search, Search]"
    by (simp add: dense_context_def artifact_missing_def DenseRetriever_init_def
        init_failed_def search_def log_event_def utf8_console_def
        broken_index_world_def working_index_world_def initial_state_def
        two_vector_index_def two_chunks_def py_index_def)
  have hyp: "index_exists broken_index_world = Inr True
             \<and> meta_exists broken_index_world = Inr True
             \<and> dense_retriever initial_state = None
             \<and> DenseRetriever_init broken_index_world = Inl ImportError"
    by (simp add: broken_index_world_def initial_state_def DenseRetriever_init_def
        init_failed_def utf8_console_def)
  from inst hyp have "dense_context broken_index_world initial_state ''python?'' 5
     = (Inr [], log_event (Construct False) initial_state)"
    by blast
  moreover from inst tr
  have "lifecycle False [Construct False, Construct False, Construct True, Search, Search]
        = Some True"
    by simp
  ultimately show ?thesis using tr hyp by simp
qed

text \<open>
  C3 as stated fails when the artifacts exist and loading raises: the first call
  attempts the construction and fails, and so does the second call; the retriever is
  unbuilt after both.
\<close>

theorem failed_construction_is_retried:
  "dense_context broken_index_world
     (snd (dense_context broken_index_world initial_state ''python?'' 5)) ''python?'' 5
   = (Inr [], \<lparr>cache_data = JNull, cache_last_modified = 0, dense_retriever = None,
               trace = [Construct False, Construct False]\<rparr>)"
  by (simp add: dense_context_def artifact_missing_def DenseRetriever_init_def
      init_failed_def log_event_def broken_index_world_def initial_state_def
      utf8_console_def)

subsection \<open>Context selector\<close>

lemma dense_context_keeps_cache:
  "cache_data (snd (dense_context w s question top_k)) = cache_data s
   \<and> cache_last_modified (snd (dense_context w s question top_k)) = cache_last_modified s"
  by (simp add: dense_context_def log_event_def split: option.splits sum.splits)

lemma load_portfolio_reads_cache_only:
  assumes "cache_data s = cache_data t" and "cache_last_modified s = cache_last_modified t"
  shows "fst (load_portfolio w s) = fst (load_portfolio w t)"
  using assms
  by (simp add: load_portfolio_def load_portfolio_try_def log_event_def Let_def
      split: sum.splits option.splits)

lemma keyword_context_reads_cache_only:
  assumes "cache_data s = cache_data t" and "cache_last_modified s = cache_last_modified t"
  shows "fst (keyword_context dumps str_lower w s section question)
         = fst (keyword_context dumps str_lower w t section question)"
proof -
  obtain d s' where a: "load_portfolio w s = (d, s')" by (cases "load_portfolio w s")
  obtain d' t' where b: "load_portfolio w t = (d', t')" by (cases "load_portfolio w t")
  from load_portfolio_reads_cache_only [OF assms, of w] a b have "d = d'" by simp
  with a b show ?thesis
    by (cases d') (simp_all add: keyword_context_def Let_def)
qed

lemma keyword_fallback_reads_cache_only:
  assumes "cache_data s = cache_data t" and "cache_last_modified s = cache_last_modified t"
  shows "fst (keyword_fallback dumps str_lower w s section question)
         = fst (keyword_fallback dumps str_lower w t section question)"
  using keyword_context_reads_cache_only [OF assms]
  by (simp add: keyword_fallback_def split: option.splits)

lemma keyword_fallback_ignores_flag:
  "keyword_fallback dumps str_lower (w\<lparr>enable_rag := v\<rparr>) s section question
   = keyword_fallback dumps str_lower w s section question"
proof -
  have "load_portfolio_try (w\<lparr>enable_rag := v\<rparr>) s = load_portfolio_try w s"
    by (simp add: load_portfolio_try_def Let_def split: sum.splits)
  then have "load_portfolio (w\<lparr>enable_rag := v\<rparr>) s = load_portfolio w s"
    by (simp add: load_portfolio_def split: prod.splits sum.splits)
  then have "keyword_context dumps str_lower (w\<lparr>enable_rag := v\<rparr>) s section question
             = keyword_context dumps str_lower w s section question"
    by (simp add: keyword_context_def)
  then show ?thesis
    by (simp add: keyword_fallback_def split: option.splits)
qed

text \<open>
  C4, as the code has it. When \<open>ENABLE_RAG\<close> reads \<open>true\<close>, an exception of
  \<open>dense_context\<close> (raised by a probe of the artifacts or by the message of a failed
  search) is raised to the caller; a non-empty dense context is returned once its
  message is printed; in every other case the message of the fallback is printed
  and the result of the keyword router is returned, an exception of either \<open>print\<close>
  being raised to the caller. When the probes report an artifact absent, the call
  with the flag set returns the same result, and leaves the same state, as the call
  in the world that differs only in a flag that is off.
\<close>

theorem select_context_precedence:
  "fst (select_context dumps str_lower w s section question)
   = (if rag_enabled str_lower w
      then (case fst (dense_context w s question 5) of
              Inl e \<Rightarrow> Inl e
            | Inr vector_context \<Rightarrow>
                if vector_context \<noteq> []
                then (case print w UsingVectorSearch of
                        Some e \<Rightarrow> Inl e
                      | None \<Rightarrow> Inr vector_context)
                else fst (keyword_fallback dumps str_lower w s section question))
      else fst (keyword_fallback dumps str_lower w s section question))
   \<and> (rag_enabled str_lower w \<and> artifact_missing w = Inr True
        \<and> \<not> rag_enabled str_lower (w\<lparr>enable_rag := off\<rparr>)
      \<longrightarrow> select_context dumps str_lower w s section question
          = select_context dumps str_lower (w\<lparr>enable_rag := off\<rparr>) s section question)"
proof
  obtain res s' where d: "dense_context w s question 5 = (res, s')"
    by (cases "dense_context w s question 5")
  from dense_context_keeps_cache [of w s question 5] d
  have "cache_data s' = cache_data s" and "cache_last_modified s' = cache_last_modified s"
    by simp_all
  then have "fst (keyword_fallback dumps str_lower w s' section question)
             = fst (keyword_fallback dumps str_lower w s section question)"
    by (rule keyword_fallback_reads_cache_only)
  with d show "fst (select_context dumps str_lower w s section question)
   = (if rag_enabled str_lower w
      then (case fst (dense_context w s question 5) of
              Inl e \<Rightarrow> Inl e
            | Inr vector_context \<Rightarrow>
                if vector_context \<noteq> []
                then (case print w UsingVectorSearch of
                        Some e \<Rightarrow> Inl e
                      | None \<Rightarrow> Inr vector_context)
                else fst (keyword_fallback dumps str_lower w s section question))
      else fst (keyword_fallback dumps str_lower w s section question))"
    by (cases res) (simp_all add: select_context_def split: option.splits)
next
  show "rag_enabled str_lower w \<and> artifact_missing w = Inr True
        \<and> \<not> rag_enabled str_lower (w\<lparr>enable_rag := off\<rparr>)
      \<longrightarrow> select_context dumps str_lower w s section question
          = select_context dumps str_lower (w\<lparr>enable_rag := off\<rparr>) s section question"
  proof
    assume a: "rag_enabled str_lower w \<and> artifact_missing w = Inr True
        \<and> \<not> rag_enabled str_lower (w\<lparr>enable_rag := off\<rparr>)"
    then have "dense_context w s question 5 = (Inr [], s)"
      using dense_context_absent [of w s question 5] by blast
    with a have "select_context dumps str_lower w s section question
               = keyword_fallback dumps str_lower w s section question"
      by (simp add: select_context_def)
    moreover from a
    have "select_context dumps str_lower (w\<lparr>enable_rag := off\<rparr>) s section question
          = keyword_fallback dumps str_lower w s section question"
      by (simp add: select_context_def keyword_fallback_ignores_flag)
    ultimately show "select_context dumps str_lower w s section question
          = select_context dumps str_lower (w\<lparr>enable_rag := off\<rparr>) s section question"
      by simp
  qed
qed

theorem select_context_precedence_witness:
  \<open>rag_enabled lower_ascii no_index_world
   \<and> artifact_missing no_index_world = Inr True
   \<and> \<not> rag_enabled lower_ascii (no_index_world\<lparr>enable_rag := Some ''false''\<rparr>)
   \<and> select_context json_dumps lower_ascii no_index_world initial_state None
       ''Where did you study?''
     = select_context json_dumps lower_ascii (no_index_world\<lparr>enable_rag := Some ''false''\<rparr>)
         initial_state None ''Where did you study?''
   \<and> fst (select_context json_dumps lower_ascii no_index_world initial_state None
            ''Where did you study?'')
     = Inr ''[\<newline>  {\<newline>    "degree": "BSc"\<newline>  }\<newline>]''\<close>
proof -
  have on: "rag_enabled lower_ascii no_index_world"
    by (simp add: rag_enabled_def no_index_world_def lower_ascii_def lower_char_def)
  have off: "\<not> rag_enabled lower_ascii (no_index_world\<lparr>enable_rag := Some ''false''\<rparr>)"
    by (simp add: rag_enabled_def no_index_world_def lower_ascii_def lower_char_def)
  have absent: "artifact_missing no_index_world = Inr True"
    by (simp add: artifact_missing_def no_index_world_def)
  have dense: "dense_context no_index_world initial_state ''Where did you study?'' 5
               = (Inr [], initial_state)"
    using absent by (rule dense_context_absent)
  have kw: \<open>fst (keyword_fallback json_dumps lower_ascii no_index_world initial_state None
                   ''Where did you study?'')
            = Inr ''[\<newline>  {\<newline>    "degree": "BSc"\<newline>  }\<newline>]''\<close>
    by (simp add: keyword_fallback_def keyword_context_def load_portfolio_def
        load_portfolio_try_def no_index_world_def initial_state_def log_event_def
        lower_ascii_def lower_char_def any_word_in_def dump_section_def dict_get_def
        sample_portfolio_def json_dumps_def dump_string_def escape_char_def
        utf8_console_def)
  note inst = select_context_precedence
    [of json_dumps lower_ascii no_index_world initial_state None "''Where did you study?''"
        "Some ''false''"]
  from inst on off absent
  have same: "select_context json_dumps lower_ascii no_index_world initial_state None
                ''Where did you study?''
              = select_context json_dumps lower_ascii
                  (no_index_world\<lparr>enable_rag := Some ''false''\<rparr>)
                  initial_state None ''Where did you study?''"
    by blast
  from inst on dense
  have "fst (select_context json_dumps lower_ascii no_index_world initial_state None
               ''Where did you study?'')
        = fst (keyword_fallback json_dumps lower_ascii no_index_world initial_state None
                 ''Where did you study?'')"
    by simp
  with kw on off absent same show ?thesis by (simp only: simp_thms)
qed

text \<open>
  C4 as stated fails where a probe of the artifacts raises: the directory of the
  artifacts may not be searched, \<open>INDEX_PATH.exists()\<close> raises \<open>PermissionError\<close>
  outside every \<open>try\<close> block, and with the flag set \<open>select_context\<close> raises it instead
  of returning the result of the keyword router, which the call with the flag off
  returns for the same question and document.
\<close>

theorem select_context_raises_on_failed_probe:
  \<open>fst (select_context json_dumps lower_ascii unsearchable_world initial_state None
          ''Where did you study?'')
     = Inl PermissionError
   \<and> fst (select_context json_dumps lower_ascii
            (unsearchable_world\<lparr>enable_rag := Some ''false''\<rparr>) initial_state None
            ''Where did you study?'')
     = Inr ''[\<newline>  {\<newline>    "degree": "BSc"\<newline>  }\<newline>]''
   \<and> fst (keyword_context json_dumps lower_ascii unsearchable_world initial_state None
            ''Where did you study?'')
     = Inr ''[\<newline>  {\<newline>    "degree": "BSc"\<newline>  }\<newline>]''\<close>
  by (simp add: select_context_def rag_enabled_def dense_context_def artifact_missing_def
      keyword_fallback_def keyword_context_def load_portfolio_def
      load_portfolio_try_def unsearchable_world_def initial_state_def log_event_def
      lower_ascii_def lower_char_def any_word_in_def dump_section_def dict_get_def
      sample_portfolio_def json_dumps_def dump_string_def escape_char_def
      utf8_console_def)

subsection \<open>Link extractor\<close>

lemma collect_links_concat:
  "collect_links py_str items links = links @ concat (map (item_links py_str) items)"
  by (induction items arbitrary: links) simp_all

lemma item_links_record_links: "item_links py_str item = record_links py_str item"
proof (cases item)
  case (JObject kvs)
  then show ?thesis
    by (cases "map_of kvs ''name''"; cases "map_of kvs ''repo''";
        cases "map_of kvs ''demo''"; cases "map_of kvs ''url''")
      (simp_all add: item_links_def record_links_def repo_link_def demo_link_def
        named_url_link_def name_text_def field_def format_value_def List.map_filter_simps
        split: json.splits)
qed (simp_all add: item_links_def record_links_def repo_link_def demo_link_def
      named_url_link_def field_def List.map_filter_simps)

text \<open>
  C1, as the code has it. For a context that parses as a sequence, \<open>extract_links\<close>
  returns the first four of the links its records yield, in the order of the
  records and, for each record, its \<open>repo\<close> link (labelled \<open><name> - GitHub\<close>), its
  \<open>demo\<close> link (labelled \<open><name> - Live Demo\<close>), then the link of a record with both
  \<open>url\<close> and \<open>name\<close>; so at most four entries. It compares no \<open>url\<close> with another:
  links with the same \<open>url\<close> are all kept.
\<close>

theorem extract_links_first_four:
  assumes "loads context = Inr (JArray items)"
  shows "extract_links loads py_str context
         = take 4 (concat (map (record_links py_str) items))
       \<and> length (extract_links loads py_str context) \<le> 4"
proof -
  have "item_links py_str = record_links py_str"
    by (rule ext) (rule item_links_record_links)
  with assms show ?thesis
    by (simp add: extract_links_def collect_links_concat)
qed

theorem extract_links_first_four_witness:
  "parse_example three_projects_context = Inr (JArray three_projects)
   \<and> length (concat (map (record_links str_example) three_projects)) = 6
   \<and> extract_links parse_example str_example three_projects_context
     = [\<lparr>label = JString ''A - GitHub'', url = JString ''r1''\<rparr>,
        \<lparr>label = JString ''A - Live Demo'', url = JString ''d1''\<rparr>,
        \<lparr>label = JString ''B - GitHub'', url = JString ''r1''\<rparr>,
        \<lparr>label = JString ''B'', url = JString ''u2''\<rparr>]"
proof -
  have p: "parse_example three_projects_context = Inr (JArray three_projects)"
    by (simp add: parse_example_def three_projects_context_def two_certs_context_def)
  have six: "concat (map (record_links str_example) three_projects)
     = [\<lparr>label = JString ''A - GitHub'', url = JString ''r1''\<rparr>,
        \<lparr>label = JString ''A - Live Demo'', url = JString ''d1''\<rparr>,
        \<lparr>label = JString ''B - GitHub'', url = JString ''r1''\<rparr>,
        \<lparr>label = JString ''B'', url = JString ''u2''\<rparr>,
        \<lparr>label = JString ''Project - GitHub'', url = JString ''r3''\<rparr>,
        \<lparr>label = JString ''Project - Live Demo'', url = JString ''d3''\<rparr>]"
    by (simp add: three_projects_def record_links_def repo_link_def demo_link_def
        named_url_link_def name_text_def field_def List.map_filter_simps)
  from extract_links_first_four
    [of parse_example three_projects_context three_projects str_example] six p
  show ?thesis by simp
qed

text \<open>
  C1 as stated fails at two records with the same \<open>url\<close>: both entries are returned.
\<close>

theorem extract_links_keeps_duplicate_url:
  "extract_links parse_example str_example two_certs_context
   = [\<lparr>label = JString ''AWS'', url = JString ''https://x.org/c''\<rparr>,
      \<lparr>label = JString ''GCP'', url = JString ''https://x.org/c''\<rparr>]"
  by (simp add: extract_links_def parse_example_def two_certs_def item_links_def)

text \<open>
  C8. For a context that \<open>json.loads\<close> rejects, and for one that parses to a value
  other than a sequence, \<open>extract_links\<close> returns the empty list. The function
  returns a list on every input: it has no error result.
\<close>

theorem extract_links_non_sequence:
  assumes "(\<exists>e. loads context = Inl e)
         \<or> (\<exists>data. loads context = Inr data \<and> (\<forall>items. data \<noteq> JArray items))"
  shows "extract_links loads py_str context = []"
  using assms by (auto simp add: extract_links_def split: json.splits)

theorem extract_links_non_sequence_witness:
  "parse_example ''About: me'' = Inl JSONDecodeError
   \<and> extract_links parse_example str_example ''About: me'' = []
   \<and> parse_example (json_dumps sample_portfolio) = Inr sample_portfolio
   \<and> extract_links parse_example str_example (json_dumps sample_portfolio) = []"
proof -
  have a: "parse_example ''About: me'' = Inl JSONDecodeError"
    by (simp add: parse_example_def two_certs_context_def three_projects_context_def
        json_dumps_def sample_portfolio_def)
  have b: "parse_example (json_dumps sample_portfolio) = Inr sample_portfolio"
    by (simp add: parse_example_def two_certs_context_def three_projects_context_def
        json_dumps_def sample_portfolio_def)
  have c: "\<forall>items. sample_portfolio \<noteq> JArray items"
    by (simp add: sample_portfolio_def)
  from extract_links_non_sequence [of parse_example "''About: me''" str_example] a
  have "extract_links parse_example str_example ''About: me'' = []" by simp
  moreover
  from extract_links_non_sequence [of parse_example "json_dumps sample_portfolio" str_example]
    b c
  have "extract_links parse_example str_example (json_dumps sample_portfolio) = []" by simp
  ultimately show ?thesis using a b by simp
qed

end
